theory Spec2Isabelle
  imports Complex_Main
begin

section \<open>The quiz game engine of \<^verbatim>\<open>quiz-game.tsx\<close>\<close>

text \<open>
  A shallow embedding of the canvas game loop (\<^verbatim>\<open>gameLoop\<close>), the input handler
  (\<^verbatim>\<open>handleCanvasClick\<close>, \<^verbatim>\<open>jump\<close>), the obstacle constructors and
  \<^verbatim>\<open>createInitialScore\<close> of \<^verbatim>\<open>game-data.ts\<close>.

  JavaScript numbers that hold coordinates, velocities and timestamps are modelled as
  \<^typ>\<open>real\<close> (exact arithmetic, no rounding); the arcade score is an \<^typ>\<open>int\<close>,
  the frame counter and the sprite index are \<^typ>\<open>int\<close> too; the other counters and the
  indices, which only ever count up from zero, are \<^typ>\<open>nat\<close>.
  Drawing and sound only read the state and are left out. Reading a property of
  \<^verbatim>\<open>undefined\<close> is the error value \<open>TypeError\<close>.
\<close>

subsection \<open>Constants\<close>

named_theorems game_consts

definition CANVAS_WIDTH :: real where [game_consts]: "CANVAS_WIDTH = 288"
definition CANVAS_HEIGHT :: real where [game_consts]: "CANVAS_HEIGHT = 512"
definition GRAVITY :: real where [game_consts]: "GRAVITY = 1 / 2"
definition JUMP_STRENGTH :: real where [game_consts]: "JUMP_STRENGTH = 9"
definition BIRD_WIDTH :: real where [game_consts]: "BIRD_WIDTH = 34"
definition BIRD_HEIGHT :: real where [game_consts]: "BIRD_HEIGHT = 24"
definition TARGET_FPS :: real where [game_consts]: "TARGET_FPS = 60"
definition MAX_DELTA_TIME :: real where [game_consts]: "MAX_DELTA_TIME = 3 / 2"
definition JUMP_COOLDOWN :: real where [game_consts]: "JUMP_COOLDOWN = 150"
definition PIPE_WIDTH :: real where [game_consts]: "PIPE_WIDTH = 52"
definition PIPE_SPEED :: real where [game_consts]: "PIPE_SPEED = 2"
definition PIPE_SPAWN_X :: real where [game_consts]: "PIPE_SPAWN_X = CANVAS_WIDTH + 20"
definition PIPE_GAP_NORMAL :: real where [game_consts]: "PIPE_GAP_NORMAL = 200"
definition MIDDLE_PIPE_HEIGHT :: real where [game_consts]: "MIDDLE_PIPE_HEIGHT = 30"
definition SLOT_HEIGHT :: real where [game_consts]: "SLOT_HEIGHT = 160"
definition NORMAL_PIPES_BETWEEN_QUESTIONS :: nat where
  [game_consts]: "NORMAL_PIPES_BETWEEN_QUESTIONS = 5"
definition SCROLL_HEIGHT :: real where [game_consts]: "SCROLL_HEIGHT = 110"
definition SCROLL_Y :: real where [game_consts]: "SCROLL_Y = CANVAS_HEIGHT - SCROLL_HEIGHT - 10"
definition PLAY_AREA_TOP :: real where [game_consts]: "PLAY_AREA_TOP = 0"
definition PLAY_AREA_BOTTOM :: real where [game_consts]: "PLAY_AREA_BOTTOM = CANVAS_HEIGHT"
definition PIPE_AREA_TOP :: real where [game_consts]: "PIPE_AREA_TOP = 50"
definition PIPE_AREA_BOTTOM :: real where [game_consts]: "PIPE_AREA_BOTTOM = SCROLL_Y - 20"
definition SCROLL_ANIMATION_DURATION :: real where
  [game_consts]: "SCROLL_ANIMATION_DURATION = 600"
definition CHAPTER_INTRO_TIME :: real where [game_consts]: "CHAPTER_INTRO_TIME = 3000"
definition QUESTION_PREVIEW_TIME :: real where [game_consts]: "QUESTION_PREVIEW_TIME = 3000"
definition AUTO_FLY_TIME :: real where [game_consts]: "AUTO_FLY_TIME = 4000"

text \<open>The bird's fixed horizontal extent: \<^verbatim>\<open>birdLeft = 50\<close>,
  \<^verbatim>\<open>birdRight = 50 + BIRD_WIDTH\<close>.\<close>

definition birdLeft :: real where [game_consts]: "birdLeft = 50"
definition birdRight :: real where [game_consts]: "birdRight = 50 + BIRD_WIDTH"

subsection \<open>Data model\<close>

datatype PipeType = normal | question

datatype GamePhase =
    loading
  | chapter_intro
  | ready_to_play
  | auto_fly
  | playing
  | question_preview
  | game_over
  | chapter_complete
  | game_complete

datatype JsError = TypeError

record Question =
  q_id :: string
  q_text :: string
  answer :: bool
  feedbackCorrect :: string
  feedbackWrong :: string

record Chapter =
  c_id :: string
  c_number :: nat
  title :: string
  subtitle :: string
  description :: string
  questions :: "Question list"

record ChapterScore =
  correct :: nat
  total :: nat

record GameScore =
  chapterScores :: "ChapterScore list"
  totalCorrect :: nat
  totalQuestions :: nat

record Bird =
  bird_y :: real
  velocity :: real
  frame :: int

text \<open>The optional fields of \<^verbatim>\<open>interface Pipe\<close> are options; \<open>None\<close> is
  \<^verbatim>\<open>undefined\<close>.\<close>

record Pipe =
  pipe_x :: real
  pipe_type :: PipeType
  gapTop :: "real option"
  gapBottom :: "real option"
  topPipeBottom :: "real option"
  middlePipeTop :: "real option"
  middlePipeBottom :: "real option"
  bottomPipeTop :: "real option"
  passed :: bool
  scored :: bool
  questionAnswered :: "bool option"

record GameState =
  phase :: GamePhase
  bird :: Bird
  pipes :: "Pipe list"
  chapterIndex :: nat
  questionIndex :: nat
  score :: GameScore
  displayScore :: int
  pipesSinceLastQuestion :: nat
  currentQuestionActive :: bool
  scrollProgress :: real
  phaseStartTime :: real
  frameCount :: int
  questionPreviewProgress :: real

text \<open>The component's mutable references: the game state, the timestamp of the last
  frame and the timestamp of the last accepted jump.\<close>

record Engine =
  gameState :: GameState
  lastFrameTime :: real
  lastJumpTime :: real

subsection \<open>JavaScript helpers\<close>

text \<open>\<^verbatim>\<open>v || 0\<close> on an optional number: \<^verbatim>\<open>undefined\<close> and \<^verbatim>\<open>0\<close> both give 0.\<close>

definition orZero :: "real option \<Rightarrow> real" where
  "orZero v = (case v of None \<Rightarrow> 0 | Some r \<Rightarrow> r)"

text \<open>\<^verbatim>\<open>!pipe.questionAnswered\<close>: true for \<^verbatim>\<open>undefined\<close> and for \<^verbatim>\<open>false\<close>.\<close>

definition notAnswered :: "Pipe \<Rightarrow> bool" where
  "notAnswered p = (questionAnswered p \<noteq> Some True)"

text \<open>\<^verbatim>\<open>xs[i]\<close>: \<^verbatim>\<open>undefined\<close> out of range.\<close>

definition nthOpt :: "'a list \<Rightarrow> nat \<Rightarrow> 'a option" where
  "nthOpt xs i = (if i < length xs then Some (xs ! i) else None)"

subsection \<open>\<^verbatim>\<open>createInitialScore\<close> (game-data.ts)\<close>

definition createInitialScore :: "Chapter list \<Rightarrow> GameScore" where
  "createInitialScore chapters =
     \<lparr> chapterScores = map (\<lambda>c. \<lparr> correct = 0, total = length (questions c) \<rparr>) chapters,
       totalCorrect = 0,
       totalQuestions = foldl (\<lambda>sum c. sum + length (questions c)) 0 chapters \<rparr>"

subsection \<open>Obstacle constructors and collision\<close>

text \<open>\<^verbatim>\<open>createNormalPipe\<close>; \<open>rnd\<close> is the value of \<^verbatim>\<open>Math.random()\<close>.\<close>

definition createNormalPipe :: "real \<Rightarrow> Pipe" where
  "createNormalPipe rnd =
     (let minGapTop = PIPE_AREA_TOP;
          maxGapTop = PIPE_AREA_BOTTOM - PIPE_GAP_NORMAL;
          gt = minGapTop + rnd * (maxGapTop - minGapTop)
      in \<lparr> pipe_x = PIPE_SPAWN_X, pipe_type = normal,
           gapTop = Some gt, gapBottom = Some (gt + PIPE_GAP_NORMAL),
           topPipeBottom = None, middlePipeTop = None,
           middlePipeBottom = None, bottomPipeTop = None,
           passed = False, scored = False, questionAnswered = None \<rparr>)"

definition createQuestionPipe :: Pipe where
  "createQuestionPipe =
     (let pipeHeight = PIPE_AREA_BOTTOM - PIPE_AREA_TOP;
          totalNeeded = SLOT_HEIGHT * 2 + MIDDLE_PIPE_HEIGHT;
          topOffset = PIPE_AREA_TOP + (pipeHeight - totalNeeded) / 2
      in \<lparr> pipe_x = PIPE_SPAWN_X, pipe_type = question,
           gapTop = None, gapBottom = None,
           topPipeBottom = Some topOffset,
           middlePipeTop = Some (topOffset + SLOT_HEIGHT),
           middlePipeBottom = Some (topOffset + SLOT_HEIGHT + MIDDLE_PIPE_HEIGHT),
           bottomPipeTop = Some (topOffset + SLOT_HEIGHT * 2 + MIDDLE_PIPE_HEIGHT),
           passed = False, scored = False, questionAnswered = Some False \<rparr>)"

definition checkCollision :: "Bird \<Rightarrow> Pipe \<Rightarrow> bool" where
  "checkCollision b p =
     (let birdTop = bird_y b; birdBottom = bird_y b + BIRD_HEIGHT in
      if birdRight < pipe_x p \<or> birdLeft > pipe_x p + PIPE_WIDTH then False
      else (case pipe_type p of
              normal \<Rightarrow> birdTop < orZero (gapTop p) \<or> birdBottom > orZero (gapBottom p)
            | question \<Rightarrow>
                birdTop < orZero (topPipeBottom p)
                \<or> (birdTop < orZero (middlePipeBottom p) \<and> birdBottom > orZero (middlePipeTop p))
                \<or> birdBottom > orZero (bottomPipeTop p)))"

subsection \<open>The per-obstacle loop bodies\<close>

text \<open>Lines 978--979: \<^verbatim>\<open>velocity += GRAVITY * deltaTime; y += velocity * deltaTime\<close>.\<close>

definition physics :: "real \<Rightarrow> Bird \<Rightarrow> Bird" where
  "physics deltaTime b =
     (let v = velocity b + GRAVITY * deltaTime
      in b\<lparr> velocity := v, bird_y := bird_y b + v * deltaTime \<rparr>)"

text \<open>\<^verbatim>\<open>frameCount++; if (frameCount % n === 0) bird.frame = (bird.frame + 1) % 3\<close>.\<close>

definition animate :: "int \<Rightarrow> GameState \<Rightarrow> GameState" where
  "animate n s =
     (let fc = frameCount s + 1;
          b = bird s
      in s\<lparr> frameCount := fc,
             bird := (if fc mod n = 0 then b\<lparr> frame := (frame b + 1) mod 3 \<rparr> else b) \<rparr>)"

text \<open>Lines 1068--1071: the bird's vertical span lies strictly inside the upper (YES) or
  the lower (NO) slot of a question pipe.\<close>

definition inYesSlot :: "Bird \<Rightarrow> Pipe \<Rightarrow> bool" where
  "inYesSlot b p =
     (bird_y b > orZero (topPipeBottom p) \<and> bird_y b + BIRD_HEIGHT < orZero (middlePipeTop p))"

definition inNoSlot :: "Bird \<Rightarrow> Pipe \<Rightarrow> bool" where
  "inNoSlot b p =
     (bird_y b > orZero (middlePipeBottom p) \<and> bird_y b + BIRD_HEIGHT < orZero (bottomPipeTop p))"

text \<open>Lines 1062--1089, the answer selection for one pipe. \<open>currentQuestion\<close> is the
  constant read at the start of the frame.\<close>

definition answerSelection ::
  "Question option \<Rightarrow> GameState \<Rightarrow> Pipe \<Rightarrow> JsError + (Pipe \<times> GameState)" where
  "answerSelection currentQuestion s p =
     (if pipe_type p = question \<and> notAnswered p then
        if birdRight > pipe_x p \<and> 50 < pipe_x p + PIPE_WIDTH then
          if inYesSlot (bird s) p \<or> inNoSlot (bird s) p then
            (let p' = p\<lparr> questionAnswered := Some True \<rparr>;
                 selectedYes = inYesSlot (bird s) p
             in case currentQuestion of
                  None \<Rightarrow> Inl TypeError
                | Some q \<Rightarrow>
                    if answer q = selectedYes then
                      (case nthOpt (chapterScores (score s)) (chapterIndex s) of
                         None \<Rightarrow> Inl TypeError
                       | Some cs \<Rightarrow>
                           Inr (p', s\<lparr> score := (score s)\<lparr>
                                        chapterScores := (chapterScores (score s))
                                          [chapterIndex s := cs\<lparr> correct := correct cs + 1 \<rparr>],
                                        totalCorrect := totalCorrect (score s) + 1 \<rparr>,
                                      displayScore := displayScore s + 5 \<rparr>))
                    else Inr (p', s\<lparr> displayScore := max 0 (displayScore s - 2) \<rparr>))
          else Inr (p, s)
        else Inr (p, s)
      else Inr (p, s))"

text \<open>The loop body ran to its end: no \<^verbatim>\<open>break\<close>.\<close>

definition noBreak :: "JsError + (Pipe \<times> GameState) \<Rightarrow> JsError + (bool \<times> Pipe \<times> GameState)" where
  "noBreak r = (case r of Inl err \<Rightarrow> Inl err | Inr (p, s) \<Rightarrow> Inr (False, p, s))"

text \<open>Lines 1019--1090, the body of the \<^verbatim>\<open>for\<close> loop of the playing phase for one
  pipe. The result is the pipe and the state as mutated, and whether the loop was left by
  \<^verbatim>\<open>break\<close>.\<close>

definition playingBody ::
  "Chapter option \<Rightarrow> Question option \<Rightarrow> real \<Rightarrow> real \<Rightarrow> GameState \<Rightarrow> Pipe
     \<Rightarrow> JsError + (bool \<times> Pipe \<times> GameState)" where
  "playingBody currentChapter currentQuestion currentTime deltaTime s p0 =
     (let p = p0\<lparr> pipe_x := pipe_x p0 - PIPE_SPEED * deltaTime \<rparr> in
      if checkCollision (bird s) p then
        Inr (True, p, s\<lparr> phase := game_over, phaseStartTime := currentTime \<rparr>)
      else if \<not> passed p \<and> pipe_x p + PIPE_WIDTH < birdLeft then
        (let p1 = p\<lparr> passed := True \<rparr> in
         case pipe_type p1 of
           normal \<Rightarrow>
             if \<not> scored p1 then
               noBreak
                 (answerSelection currentQuestion
                    (s\<lparr> displayScore := displayScore s + 1,
                        pipesSinceLastQuestion := pipesSinceLastQuestion s + 1 \<rparr>)
                    (p1\<lparr> scored := True \<rparr>))
             else noBreak (answerSelection currentQuestion s p1)
         | question \<Rightarrow>
             (let s1 = s\<lparr> pipesSinceLastQuestion := 0, currentQuestionActive := False \<rparr> in
              case currentChapter of
                None \<Rightarrow> Inl TypeError
              | Some c \<Rightarrow>
                  if int (questionIndex s1) < int (length (questions c)) - 1 then
                    noBreak
                      (answerSelection currentQuestion
                         (s1\<lparr> questionIndex := questionIndex s1 + 1 \<rparr>) p1)
                  else
                    Inr (True, p1, s1\<lparr> phase := chapter_complete,
                                         phaseStartTime := currentTime,
                                         scrollProgress := 0 \<rparr>)))
      else noBreak (answerSelection currentQuestion s p))"

text \<open>Lines 1143--1164, the loop body of the question preview phase.\<close>

definition previewBody :: "real \<Rightarrow> real \<Rightarrow> GameState \<Rightarrow> Pipe \<Rightarrow> bool \<times> Pipe \<times> GameState" where
  "previewBody currentTime deltaTime s p0 =
     (let p = p0\<lparr> pipe_x := pipe_x p0 - PIPE_SPEED * deltaTime \<rparr> in
      if checkCollision (bird s) p then
        (True, p, s\<lparr> phase := game_over, phaseStartTime := currentTime \<rparr>)
      else if pipe_type p = normal \<and> \<not> passed p \<and> pipe_x p + PIPE_WIDTH < 50 then
        (let p1 = p\<lparr> passed := True \<rparr> in
         if \<not> scored p1 then
           (False, p1\<lparr> scored := True \<rparr>,
            s\<lparr> displayScore := displayScore s + 1,
                pipesSinceLastQuestion := pipesSinceLastQuestion s + 1 \<rparr>)
         else (False, p1, s))
      else (False, p, s))"

text \<open>The \<^verbatim>\<open>for (const pipe of state.pipes)\<close> loops: the pipes are mutated in
  place, in order; after a \<^verbatim>\<open>break\<close> the remaining pipes are untouched.\<close>

fun playingLoop ::
  "Chapter option \<Rightarrow> Question option \<Rightarrow> real \<Rightarrow> real \<Rightarrow> GameState \<Rightarrow> Pipe list
     \<Rightarrow> JsError + (Pipe list \<times> GameState)" where
  "playingLoop cc cq currentTime deltaTime s [] = Inr ([], s)"
| "playingLoop cc cq currentTime deltaTime s (p # ps) =
     (case playingBody cc cq currentTime deltaTime s p of
        Inl e \<Rightarrow> Inl e
      | Inr (brk, p', s') \<Rightarrow>
          if brk then Inr (p' # ps, s')
          else (case playingLoop cc cq currentTime deltaTime s' ps of
                  Inl e \<Rightarrow> Inl e
                | Inr (ps', s'') \<Rightarrow> Inr (p' # ps', s'')))"

fun previewLoop :: "real \<Rightarrow> real \<Rightarrow> GameState \<Rightarrow> Pipe list \<Rightarrow> Pipe list \<times> GameState" where
  "previewLoop currentTime deltaTime s [] = ([], s)"
| "previewLoop currentTime deltaTime s (p # ps) =
     (case previewBody currentTime deltaTime s p of
        (brk, p', s') \<Rightarrow>
          if brk then (p' # ps, s')
          else (case previewLoop currentTime deltaTime s' ps of
                  (ps', s'') \<Rightarrow> (p' # ps', s'')))"

text \<open>\<^verbatim>\<open>state.pipes.filter(p => p.x + PIPE_WIDTH > -50)\<close>.\<close>

definition onScreen :: "Pipe \<Rightarrow> bool" where
  "onScreen p = (pipe_x p + PIPE_WIDTH > - 50)"

subsection \<open>One frame of \<^verbatim>\<open>gameLoop\<close>, phase by phase\<close>

definition centerY :: real where
  "centerY = (PIPE_AREA_TOP + PIPE_AREA_BOTTOM) / 2"

definition tickChapterIntro :: "real \<Rightarrow> real \<Rightarrow> GameState \<Rightarrow> GameState" where
  "tickChapterIntro currentTime elapsed s =
     (let s1 = s\<lparr> scrollProgress := min 1 (elapsed / SCROLL_ANIMATION_DURATION) \<rparr> in
      if elapsed > CHAPTER_INTRO_TIME then
        s1\<lparr> phase := ready_to_play,
            phaseStartTime := currentTime,
            scrollProgress := 0,
            bird := (bird s1)\<lparr> bird_y := centerY, velocity := 0 \<rparr>,
            pipes := [],
            pipesSinceLastQuestion := NORMAL_PIPES_BETWEEN_QUESTIONS,
            currentQuestionActive := False \<rparr>
      else s1)"

definition tickReadyToPlay :: "real \<Rightarrow> GameState \<Rightarrow> GameState" where
  "tickReadyToPlay currentTime s =
     (let bobOffset = sin (currentTime / 300) * 3;
          s1 = s\<lparr> bird := (bird s)\<lparr> bird_y := centerY + bobOffset \<rparr> \<rparr>
      in animate 8 s1)"

definition tickAutoFly :: "real \<Rightarrow> real \<Rightarrow> GameState \<Rightarrow> GameState" where
  "tickAutoFly currentTime elapsed s =
     (let autoFlyProgress = min 1 (elapsed / AUTO_FLY_TIME);
          s1 = s\<lparr> scrollProgress := min 1 (elapsed / SCROLL_ANIMATION_DURATION) \<rparr>;
          flyAmplitude = 40;
          flySpeed = 3 / 1000;
          s2 = s1\<lparr> bird := (bird s1)\<lparr> bird_y := centerY + sin (currentTime * flySpeed) * flyAmplitude \<rparr> \<rparr>;
          s3 = animate 5 s2
      in if autoFlyProgress \<ge> 1 then
           s3\<lparr> pipes := pipes s3 @ [createQuestionPipe],
               phase := playing,
               phaseStartTime := currentTime,
               bird := (bird s3)\<lparr> velocity := 0 \<rparr> \<rparr>
         else s3)"

text \<open>\<^verbatim>\<open>state.pipes.some(p => p.type === "question" && !p.passed)\<close>.\<close>

definition hasQuestionPipeOnScreen :: "Pipe list \<Rightarrow> bool" where
  "hasQuestionPipeOnScreen ps = list_ex (\<lambda>p. pipe_type p = question \<and> \<not> passed p) ps"

text \<open>The bounds test shared by the playing and the preview phase.\<close>

definition outOfBounds :: "Bird \<Rightarrow> bool" where
  "outOfBounds b = (bird_y b < PLAY_AREA_TOP \<or> bird_y b + BIRD_HEIGHT > PLAY_AREA_BOTTOM)"

text \<open>The condition of line 998, with JavaScript's left-to-right evaluation of
  \<^verbatim>\<open>&&\<close>: \<^verbatim>\<open>currentChapter.questions\<close> is read only when the first two conjuncts
  hold.\<close>

definition timeForQuestion :: "Chapter option \<Rightarrow> GameState \<Rightarrow> bool \<Rightarrow> JsError + bool" where
  "timeForQuestion currentChapter s hasQ =
     (if pipesSinceLastQuestion s \<ge> NORMAL_PIPES_BETWEEN_QUESTIONS \<and> \<not> hasQ then
        (case currentChapter of
           None \<Rightarrow> Inl TypeError
         | Some c \<Rightarrow> Inr (questionIndex s < length (questions c)))
      else Inr False)"

definition tickPlaying ::
  "Chapter option \<Rightarrow> Question option \<Rightarrow> real \<Rightarrow> real \<Rightarrow> real \<Rightarrow> real \<Rightarrow> GameState
     \<Rightarrow> JsError + GameState" where
  "tickPlaying currentChapter currentQuestion currentTime elapsed deltaTime rnd s =
     (let s1 = s\<lparr> scrollProgress := min 1 (elapsed / SCROLL_ANIMATION_DURATION) \<rparr>;
          s2 = s1\<lparr> bird := physics deltaTime (bird s1) \<rparr>
      in if outOfBounds (bird s2) then
           Inr (s2\<lparr> phase := game_over, phaseStartTime := currentTime \<rparr>)
         else
           (let s3 = animate 6 s2;
                hasQ = hasQuestionPipeOnScreen (pipes s3)
            in case timeForQuestion currentChapter s3 hasQ of
                 Inl e \<Rightarrow> Inl e
               | Inr True \<Rightarrow>
                   Inr (s3\<lparr> phase := question_preview,
                            phaseStartTime := currentTime,
                            questionPreviewProgress := 0,
                            currentQuestionActive := True,
                            scrollProgress := 0 \<rparr>)
               | Inr False \<Rightarrow>
                   (let shouldSpawnPipe =
                          (pipes s3 = [] \<or> pipe_x (last (pipes s3)) < CANVAS_WIDTH - 180);
                        ps = (if shouldSpawnPipe \<and> \<not> hasQ
                              then pipes s3 @ [createNormalPipe rnd] else pipes s3)
                    in case playingLoop currentChapter currentQuestion currentTime deltaTime s3 ps of
                         Inl e \<Rightarrow> Inl e
                       | Inr (ps', s4) \<Rightarrow> Inr (s4\<lparr> pipes := filter onScreen ps' \<rparr>))))"

definition tickQuestionPreview :: "real \<Rightarrow> real \<Rightarrow> real \<Rightarrow> GameState \<Rightarrow> GameState" where
  "tickQuestionPreview currentTime elapsed deltaTime s =
     (let s1 = s\<lparr> questionPreviewProgress := min 1 (elapsed / QUESTION_PREVIEW_TIME),
                  scrollProgress := min 1 (elapsed / SCROLL_ANIMATION_DURATION) \<rparr>;
          s2 = s1\<lparr> bird := physics deltaTime (bird s1) \<rparr>
      in if outOfBounds (bird s2) then
           s2\<lparr> phase := game_over, phaseStartTime := currentTime \<rparr>
         else
           (let s3 = animate 6 s2 in
            case previewLoop currentTime deltaTime s3 (pipes s3) of
              (ps', s4) \<Rightarrow>
                (let s5 = s4\<lparr> pipes := filter onScreen ps' \<rparr> in
                 if questionPreviewProgress s5 \<ge> 1 then
                   s5\<lparr> pipes := pipes s5 @ [createQuestionPipe],
                       phase := playing,
                       phaseStartTime := currentTime,
                       scrollProgress := 1 \<rparr>
                 else s5)))"

definition tickGameOver :: "real \<Rightarrow> GameState \<Rightarrow> GameState" where
  "tickGameOver deltaTime s =
     (let v = velocity (bird s) + GRAVITY * deltaTime * (1 / 2) in
      s\<lparr> bird := (bird s)\<lparr> velocity := v,
                            bird_y := min (PLAY_AREA_BOTTOM - BIRD_HEIGHT)
                                          (bird_y (bird s) + v * deltaTime) \<rparr> \<rparr>)"

definition tickScrollOnly :: "real \<Rightarrow> GameState \<Rightarrow> GameState" where
  "tickScrollOnly elapsed s =
     s\<lparr> scrollProgress := min 1 (elapsed / SCROLL_ANIMATION_DURATION) \<rparr>"

text \<open>Lines 867--872: the frame's time step, in units of one 60 Hz frame, clamped from
  above. \<open>lastFrame\<close> is \<^verbatim>\<open>lastFrameTimeRef.current\<close> before the frame.\<close>

definition deltaTimeOf :: "real \<Rightarrow> real \<Rightarrow> real" where
  "deltaTimeOf lastFrame currentTime =
     (let lastFrame' = (if lastFrame = 0 then currentTime else lastFrame)
      in min ((currentTime - lastFrame') / (1000 / TARGET_FPS)) MAX_DELTA_TIME)"

text \<open>One call of \<^verbatim>\<open>gameLoop(currentTime)\<close>. The \<^verbatim>\<open>switch\<close> has no case for
  \<^verbatim>\<open>"loading"\<close>.\<close>

definition gameLoop :: "Chapter list \<Rightarrow> real \<Rightarrow> real \<Rightarrow> Engine \<Rightarrow> JsError + Engine" where
  "gameLoop chapters currentTime rnd e =
     (let state = gameState e;
          deltaTime = deltaTimeOf (lastFrameTime e) currentTime;
          elapsed = currentTime - phaseStartTime state;
          currentChapter = nthOpt chapters (chapterIndex state);
          currentQuestion = (case currentChapter of
                               None \<Rightarrow> None
                             | Some c \<Rightarrow> nthOpt (questions c) (questionIndex state));
          r = (case phase state of
                 loading \<Rightarrow> Inr state
               | chapter_intro \<Rightarrow> Inr (tickChapterIntro currentTime elapsed state)
               | ready_to_play \<Rightarrow> Inr (tickReadyToPlay currentTime state)
               | auto_fly \<Rightarrow> Inr (tickAutoFly currentTime elapsed state)
               | playing \<Rightarrow>
                   tickPlaying currentChapter currentQuestion currentTime elapsed deltaTime rnd state
               | question_preview \<Rightarrow>
                   Inr (tickQuestionPreview currentTime elapsed deltaTime state)
               | game_over \<Rightarrow> Inr (tickGameOver deltaTime state)
               | chapter_complete \<Rightarrow> Inr (tickScrollOnly elapsed state)
               | game_complete \<Rightarrow> Inr (tickScrollOnly elapsed state))
      in case r of
           Inl err \<Rightarrow> Inl err
         | Inr state' \<Rightarrow> Inr (e\<lparr> gameState := state', lastFrameTime := currentTime \<rparr>))"

subsection \<open>Input: \<^verbatim>\<open>jump\<close> and \<^verbatim>\<open>handleCanvasClick\<close>\<close>

text \<open>\<open>now\<close> is \<^verbatim>\<open>Date.now()\<close>.\<close>

definition jump :: "real \<Rightarrow> Engine \<Rightarrow> Engine" where
  "jump now e =
     (if now - lastJumpTime e < JUMP_COOLDOWN then e
      else
        (let e1 = e\<lparr> lastJumpTime := now \<rparr>;
             state = gameState e1
         in if phase state = playing \<or> phase state = question_preview then
              e1\<lparr> gameState := state\<lparr> bird := (bird state)\<lparr> velocity := - JUMP_STRENGTH \<rparr> \<rparr> \<rparr>
            else e1))"

text \<open>\<open>perfNow\<close> is \<^verbatim>\<open>performance.now()\<close>, \<open>dateNow\<close> is \<^verbatim>\<open>Date.now()\<close>.\<close>

definition handleCanvasClick :: "Chapter list \<Rightarrow> real \<Rightarrow> real \<Rightarrow> Engine \<Rightarrow> Engine" where
  "handleCanvasClick chapters perfNow dateNow e =
     (let state = gameState e in
      if phase state = ready_to_play then
        e\<lparr> gameState := state\<lparr> phase := auto_fly,
                                   phaseStartTime := perfNow,
                                   scrollProgress := 0,
                                   currentQuestionActive := True \<rparr> \<rparr>
      else if phase state = game_over then
        e\<lparr> gameState := state\<lparr> phase := playing,
                                   phaseStartTime := perfNow,
                                   bird := (bird state)\<lparr> bird_y := centerY, velocity := 0 \<rparr>,
                                   pipes := filter (\<lambda>p. pipe_x p > 100) (pipes state) \<rparr> \<rparr>
      else if phase state = chapter_complete then
        (if int (chapterIndex state) < int (length chapters) - 1 then
           e\<lparr> gameState := state\<lparr> chapterIndex := chapterIndex state + 1,
                                      questionIndex := 0,
                                      phase := chapter_intro,
                                      phaseStartTime := perfNow,
                                      scrollProgress := 0,
                                      pipes := [],
                                      pipesSinceLastQuestion := NORMAL_PIPES_BETWEEN_QUESTIONS,
                                      currentQuestionActive := False \<rparr> \<rparr>
         else
           e\<lparr> gameState := state\<lparr> phase := game_complete,
                                      phaseStartTime := perfNow,
                                      scrollProgress := 0 \<rparr> \<rparr>)
      else if phase state = game_complete then
        e\<lparr> gameState :=
             \<lparr> phase = chapter_intro,
               bird = \<lparr> bird_y = centerY, velocity = 0, frame = 0 \<rparr>,
               pipes = [],
               chapterIndex = 0,
               questionIndex = 0,
               score = createInitialScore chapters,
               displayScore = 0,
               pipesSinceLastQuestion = NORMAL_PIPES_BETWEEN_QUESTIONS,
               currentQuestionActive = False,
               scrollProgress = 0,
               phaseStartTime = perfNow,
               frameCount = 0,
               questionPreviewProgress = 0 \<rparr> \<rparr>
      else jump dateNow e)"

subsection \<open>Start-up and the reachable states\<close>

text \<open>The initial value of \<^verbatim>\<open>gameStateRef\<close> and of the two timestamp references
  (lines 130--154).\<close>

definition initialEngine :: "Chapter list \<Rightarrow> Engine" where
  "initialEngine chapters =
     \<lparr> gameState =
         \<lparr> phase = loading,
           bird = \<lparr> bird_y = centerY, velocity = 0, frame = 0 \<rparr>,
           pipes = [],
           chapterIndex = 0,
           questionIndex = 0,
           score = createInitialScore chapters,
           displayScore = 0,
           pipesSinceLastQuestion = 0,
           currentQuestionActive = False,
           scrollProgress = 0,
           phaseStartTime = 0,
           frameCount = 0,
           questionPreviewProgress = 0 \<rparr>,
       lastFrameTime = 0,
       lastJumpTime = 0 \<rparr>"

text \<open>Lines 223--230: the assets have loaded.\<close>

definition assetsLoaded :: "real \<Rightarrow> Engine \<Rightarrow> Engine" where
  "assetsLoaded perfNow e =
     e\<lparr> gameState := (gameState e)\<lparr> phase := chapter_intro, phaseStartTime := perfNow \<rparr> \<rparr>"

text \<open>
  What the environment can do. The component is mounted with a non-empty chapter list
  (line 128 substitutes the sample data for an empty one). The assets load once, while
  the phase is still \<open>loading\<close>; frames are scheduled only after that, with timestamps
  that do not decrease, and \<^verbatim>\<open>Math.random()\<close> lies in \<open>[0, 1)\<close>; a frame that throws
  ends the animation loop. Inputs can arrive at any time.
\<close>

datatype Event =
    AssetsLoaded real
  | Frame real real
  | Click real real

inductive reachable :: "Chapter list \<Rightarrow> Engine \<Rightarrow> bool" for chapters :: "Chapter list" where
  r_init: "chapters \<noteq> [] \<Longrightarrow> reachable chapters (initialEngine chapters)"
| r_loaded: "reachable chapters e \<Longrightarrow> phase (gameState e) = loading
     \<Longrightarrow> reachable chapters (assetsLoaded perfNow e)"
| r_frame: "reachable chapters e \<Longrightarrow> phase (gameState e) \<noteq> loading
     \<Longrightarrow> lastFrameTime e \<le> currentTime \<Longrightarrow> 0 \<le> rnd \<Longrightarrow> rnd < 1
     \<Longrightarrow> gameLoop chapters currentTime rnd e = Inr e'
     \<Longrightarrow> reachable chapters e'"
| r_click: "reachable chapters e
     \<Longrightarrow> reachable chapters (handleCanvasClick chapters perfNow dateNow e)"

text \<open>A run from a given engine state, for concrete scenarios: the events in order; a
  frame that throws stops the run with the error.\<close>

fun step :: "Chapter list \<Rightarrow> Event \<Rightarrow> Engine \<Rightarrow> JsError + Engine" where
  "step chapters (AssetsLoaded perfNow) e = Inr (assetsLoaded perfNow e)"
| "step chapters (Frame currentTime rnd) e = gameLoop chapters currentTime rnd e"
| "step chapters (Click perfNow dateNow) e = Inr (handleCanvasClick chapters perfNow dateNow e)"

fun run :: "Chapter list \<Rightarrow> Event list \<Rightarrow> Engine \<Rightarrow> JsError + Engine" where
  "run chapters [] e = Inr e"
| "run chapters (ev # evs) e =
     (case step chapters ev e of Inl err \<Rightarrow> Inl err | Inr e' \<Rightarrow> run chapters evs e')"

subsection \<open>Notions used in the statements\<close>


text \<open>The phases in which the bird is under gravity and jumps take effect.\<close>

definition flightPhase :: "GamePhase \<Rightarrow> bool" where
  "flightPhase ph = (ph = playing \<or> ph = question_preview)"

text \<open>Consecutive frames, each started in a flight phase and none throwing; every frame
  is a pair of its timestamp and its random number.\<close>

fun flightFrames :: "Chapter list \<Rightarrow> (real \<times> real) list \<Rightarrow> Engine \<Rightarrow> Engine option" where
  "flightFrames chapters [] e = Some e"
| "flightFrames chapters ((currentTime, rnd) # fs) e =
     (if flightPhase (phase (gameState e)) then
        (case gameLoop chapters currentTime rnd e of
           Inl err \<Rightarrow> None
         | Inr e' \<Rightarrow> flightFrames chapters fs e')
      else None)"

text \<open>The time steps of consecutive frames with the given timestamps.\<close>

fun deltas :: "real \<Rightarrow> real list \<Rightarrow> real list" where
  "deltas lastFrame [] = []"
| "deltas lastFrame (t # ts) = deltaTimeOf lastFrame t # deltas t ts"

text \<open>The sum of the update rule \<^verbatim>\<open>v += g * dt; y += v * dt\<close> over the time steps
  \<open>dts\<close>, from position \<open>y0\<close> and velocity \<open>v0\<close>.\<close>

definition eulerSum :: "real \<Rightarrow> real \<Rightarrow> real list \<Rightarrow> real" where
  "eulerSum y0 v0 dts =
     y0 + (\<Sum>i<length dts. dts ! i * (v0 + GRAVITY * (\<Sum>j\<le>i. dts ! j)))"

text \<open>The spec's words, "the closed-form integration of constant gravity from rest":
  the position after time \<open>t\<close> of a body released at \<open>y0\<close> under the constant
  acceleration \<open>GRAVITY\<close>.\<close>

definition continuousClosedForm :: "real \<Rightarrow> real \<Rightarrow> real" where
  "continuousClosedForm y0 t = y0 + GRAVITY * t\<^sup>2 / 2"

fun isFrame :: "Event \<Rightarrow> bool" where
  "isFrame (Frame t r) = True"
| "isFrame (AssetsLoaded t) = False"
| "isFrame (Click t d) = False"

text \<open>A game of one chapter with one question whose correct answer is YES.\<close>

definition oneQuestionGame :: "Chapter list" where
  "oneQuestionGame =
     [\<lparr> c_id = ''c1'', c_number = 1, title = ''T'', subtitle = ''S'', description = ''D'',
        questions = [\<lparr> q_id = ''q1'', q_text = ''Q'', answer = True,
                       feedbackCorrect = ''yes'', feedbackWrong = ''no'' \<rparr>] \<rparr>]"

text \<open>A crashed state: the bird on the ground, a plain pipe behind the retry line and a
  question pipe ahead of it.\<close>

definition crashedExample :: Engine where
  "crashedExample =
     (initialEngine oneQuestionGame)
       \<lparr> gameState := (gameState (initialEngine oneQuestionGame))
           \<lparr> phase := game_over, bird := \<lparr> bird_y = 488, velocity = 12, frame = 1 \<rparr>,
             pipes := [createNormalPipe 0\<lparr> pipe_x := 60 \<rparr>, createQuestionPipe\<lparr> pipe_x := 260 \<rparr>],
             displayScore := 7 \<rparr> \<rparr>"

text \<open>The state after the retry input on the crashed state, with a last frame at 9000 ms:
  the phase is \<open>playing\<close>, the bird is at rest at the centre.\<close>

definition flyingExample :: Engine where
  "flyingExample =
     (handleCanvasClick oneQuestionGame 9000 9000 crashedExample)\<lparr> lastFrameTime := 9000 \<rparr>"

section \<open>Basic facts\<close>

lemma question_pipe_fields:
  "createQuestionPipe =
     \<lparr> pipe_x = 308, pipe_type = question, gapTop = None, gapBottom = None,
       topPipeBottom = Some 36, middlePipeTop = Some 196,
       middlePipeBottom = Some 226, bottomPipeTop = Some 386,
       passed = False, scored = False, questionAnswered = Some False \<rparr>"
  by (simp add: createQuestionPipe_def game_consts)

text \<open>The definitions a concrete run unfolds.\<close>

lemmas eval_simps = gameLoop_def handleCanvasClick_def jump_def assetsLoaded_def initialEngine_def
  tickChapterIntro_def tickReadyToPlay_def tickAutoFly_def tickPlaying_def tickQuestionPreview_def
  tickGameOver_def tickScrollOnly_def deltaTimeOf_def timeForQuestion_def hasQuestionPipeOnScreen_def
  outOfBounds_def animate_def physics_def playingBody_def previewBody_def answerSelection_def
  inYesSlot_def inNoSlot_def flightPhase_def
  noBreak_def checkCollision_def createQuestionPipe_def createNormalPipe_def createInitialScore_def
  onScreen_def orZero_def notAnswered_def nthOpt_def centerY_def oneQuestionGame_def
  crashedExample_def flyingExample_def Let_def game_consts

lemma noBreak_Inr [simp]:
  "noBreak r = Inr (brk, p, s) \<longleftrightarrow> \<not> brk \<and> r = Inr (p, s)"
  by (auto simp: noBreak_def split: sum.splits)

section \<open>Obstacle geometry\<close>

text \<open>
  C4 (as amended). Every question pipe is the value of \<^verbatim>\<open>createQuestionPipe\<close>: its edges
  are ordered, top edge < middle top < middle bottom < bottom edge, and both slots are
  \<open>SLOT_HEIGHT\<close> = 160 high. The slot height is smaller than the gap of a plain pipe,
  which is \<open>PIPE_GAP_NORMAL\<close> = 200 for every random number.
\<close>

theorem question_pipe_geometry:
  "orZero (topPipeBottom createQuestionPipe) < orZero (middlePipeTop createQuestionPipe)
   \<and> orZero (middlePipeTop createQuestionPipe) < orZero (middlePipeBottom createQuestionPipe)
   \<and> orZero (middlePipeBottom createQuestionPipe) < orZero (bottomPipeTop createQuestionPipe)
   \<and> orZero (middlePipeTop createQuestionPipe) - orZero (topPipeBottom createQuestionPipe)
       = SLOT_HEIGHT
   \<and> orZero (bottomPipeTop createQuestionPipe) - orZero (middlePipeBottom createQuestionPipe)
       = SLOT_HEIGHT
   \<and> SLOT_HEIGHT = 160 \<and> PIPE_GAP_NORMAL = 200 \<and> SLOT_HEIGHT < PIPE_GAP_NORMAL
   \<and> (\<forall>rnd. orZero (gapBottom (createNormalPipe rnd)) - orZero (gapTop (createNormalPipe rnd))
          = PIPE_GAP_NORMAL)"
  by (simp add: question_pipe_fields orZero_def createNormalPipe_def Let_def
      SLOT_HEIGHT_def PIPE_GAP_NORMAL_def)

text \<open>C4 as stated fails: the YES slot of the question pipe is not higher than the gap of a
  plain pipe (here the one generated for the random number 0).\<close>

theorem slot_not_larger_than_gap:
  "\<not> (orZero (middlePipeTop createQuestionPipe) - orZero (topPipeBottom createQuestionPipe)
        > orZero (gapBottom (createNormalPipe 0)) - orZero (gapTop (createNormalPipe 0)))"
  by (simp add: question_pipe_fields orZero_def createNormalPipe_def Let_def game_consts)

section \<open>The loop body on one obstacle\<close>







section \<open>Input handling\<close>

text \<open>
  C7. An input in the crashed phase (\<open>game_over\<close>) makes the phase \<open>playing\<close>, puts the
  bird at the centre of the pipe band with velocity 0 and keeps exactly the pipes with
  \<open>x > 100\<close>; chapterIndex, questionIndex, the score aggregate and displayScore are
  unchanged.
\<close>

theorem crash_retry_frame:
  assumes "phase (gameState e) = game_over"
  shows "phase (gameState (handleCanvasClick chapters perfNow dateNow e)) = playing
       \<and> bird_y (bird (gameState (handleCanvasClick chapters perfNow dateNow e)))
           = (PIPE_AREA_TOP + PIPE_AREA_BOTTOM) / 2
       \<and> velocity (bird (gameState (handleCanvasClick chapters perfNow dateNow e))) = 0
       \<and> pipes (gameState (handleCanvasClick chapters perfNow dateNow e))
           = filter (\<lambda>p. pipe_x p > 100) (pipes (gameState e))
       \<and> chapterIndex (gameState (handleCanvasClick chapters perfNow dateNow e))
           = chapterIndex (gameState e)
       \<and> questionIndex (gameState (handleCanvasClick chapters perfNow dateNow e))
           = questionIndex (gameState e)
       \<and> score (gameState (handleCanvasClick chapters perfNow dateNow e)) = score (gameState e)
       \<and> displayScore (gameState (handleCanvasClick chapters perfNow dateNow e))
           = displayScore (gameState e)"
  using assms by (simp add: handleCanvasClick_def Let_def centerY_def)

theorem crash_retry_frame_witness:
  "phase (gameState crashedExample) = game_over
   \<and> phase (gameState (handleCanvasClick oneQuestionGame 9000 9000 crashedExample)) = playing
   \<and> bird_y (bird (gameState (handleCanvasClick oneQuestionGame 9000 9000 crashedExample))) = 211
   \<and> velocity (bird (gameState (handleCanvasClick oneQuestionGame 9000 9000 crashedExample))) = 0
   \<and> pipes (gameState (handleCanvasClick oneQuestionGame 9000 9000 crashedExample))
       = [createQuestionPipe\<lparr> pipe_x := 260 \<rparr>]
   \<and> displayScore (gameState (handleCanvasClick oneQuestionGame 9000 9000 crashedExample)) = 7"
proof -
  have h: "phase (gameState crashedExample) = game_over"
    by (simp add: crashedExample_def)
  show ?thesis
    using h crash_retry_frame[OF h, of oneQuestionGame 9000 9000]
    by (simp add: crashedExample_def createNormalPipe_def Let_def question_pipe_fields game_consts)
qed


lemma gameLoop_lastJumpTime:
  "gameLoop chapters t rnd e = Inr e' \<Longrightarrow> lastJumpTime e' = lastJumpTime e"
  by (auto simp: gameLoop_def Let_def split: sum.splits)

lemma run_frames_lastJumpTime:
  "run chapters evs e = Inr e' \<Longrightarrow> \<forall>ev \<in> set evs. isFrame ev \<Longrightarrow> lastJumpTime e' = lastJumpTime e"
proof (induction evs arbitrary: e)
  case Nil
  then show ?case by simp
next
  case (Cons ev evs)
  then obtain t rnd where ev: "ev = Frame t rnd"
    by (cases ev) auto
  with Cons.prems obtain e1 where g: "gameLoop chapters t rnd e = Inr e1" and r: "run chapters evs e1 = Inr e'"
    by (auto split: sum.splits)
  from Cons.IH[OF r] Cons.prems(2) gameLoop_lastJumpTime[OF g] show ?case by simp
qed

text \<open>
  C8 (as amended). When a jump input is accepted at time \<open>t1\<close> (at least
  \<open>JUMP_COOLDOWN\<close> = 150 ms after the last accepted one), it records \<open>t1\<close> and, in a
  flight phase, sets the velocity to \<open>- JUMP_STRENGTH\<close>; every jump input at a time
  \<open>t2\<close> with \<open>t2 - t1 < 150\<close>, after any number of frames, leaves the whole
  engine state unchanged. An input that is itself ignored does not restart the window.
\<close>

theorem jump_cooldown:
  assumes acc: "JUMP_COOLDOWN \<le> t1 - lastJumpTime e"
      and near: "t2 - t1 < JUMP_COOLDOWN"
      and frames: "\<forall>ev \<in> set evs. isFrame ev"
      and run: "run chapters evs (jump t1 e) = Inr e'"
  shows "lastJumpTime (jump t1 e) = t1
       \<and> (flightPhase (phase (gameState e))
            \<longrightarrow> velocity (bird (gameState (jump t1 e))) = - JUMP_STRENGTH)
       \<and> jump t2 e' = e'
       \<and> (flightPhase (phase (gameState e'))
            \<longrightarrow> handleCanvasClick chapters perfNow t2 e' = e')"
proof -
  have 1: "lastJumpTime (jump t1 e) = t1"
    using acc by (simp add: jump_def Let_def)
  have 2: "flightPhase (phase (gameState e))
            \<longrightarrow> velocity (bird (gameState (jump t1 e))) = - JUMP_STRENGTH"
    using acc by (auto simp: jump_def Let_def flightPhase_def)
  have "lastJumpTime e' = t1"
    using run_frames_lastJumpTime[OF run frames] 1 by simp
  then have 3: "jump t2 e' = e'"
    using near by (simp add: jump_def)
  have "flightPhase (phase (gameState e')) \<Longrightarrow> handleCanvasClick chapters perfNow t2 e' = jump t2 e'"
    by (auto simp: handleCanvasClick_def Let_def flightPhase_def)
  then have 4: "flightPhase (phase (gameState e')) \<longrightarrow> handleCanvasClick chapters perfNow t2 e' = e'"
    unfolding 3 by blast
  from 1 2 3 4 show ?thesis by blast
qed

theorem jump_cooldown_witness:
  "JUMP_COOLDOWN \<le> 1000 - lastJumpTime flyingExample
   \<and> (1100::real) - 1000 < JUMP_COOLDOWN
   \<and> (\<exists>e'. run oneQuestionGame [Frame 9025 0, Frame 9050 0] (jump 1000 flyingExample) = Inr e'
          \<and> velocity (bird (gameState (jump 1000 flyingExample))) = - 9
          \<and> jump 1100 e' = e'
          \<and> handleCanvasClick oneQuestionGame 9060 1100 e' = e')"
proof -
  define e' where
    "e' = projr (run oneQuestionGame [Frame 9025 0, Frame 9050 0] (jump 1000 flyingExample))"
  have acc: "JUMP_COOLDOWN \<le> 1000 - lastJumpTime flyingExample"
    by (simp add: eval_simps)
  have near: "(1100::real) - 1000 < JUMP_COOLDOWN"
    by (simp add: JUMP_COOLDOWN_def)
  have fr: "\<forall>ev \<in> set [Frame 9025 0, Frame 9050 0]. isFrame ev"
    by simp
  have r: "run oneQuestionGame [Frame 9025 0, Frame 9050 0] (jump 1000 flyingExample) = Inr e'"
    by (simp add: e'_def eval_simps)
  have ph: "flightPhase (phase (gameState e'))" "flightPhase (phase (gameState flyingExample))"
    by (simp_all add: e'_def eval_simps)
  note jc = jump_cooldown[OF acc near fr r, of 9060]
  show ?thesis
    using jc ph acc near r by (simp add: JUMP_STRENGTH_def)
qed


text \<open>
  C8 as stated fails. After a jump accepted at 1000 ms and one frame: the inputs at 1050
  and 1100 ms are both ignored, so neither changes the velocity; and of the inputs at 1100
  and 1200 ms, 100 ms apart, the first is ignored (the velocity stays -33/4) and the
  second is accepted (the velocity becomes -9).
\<close>

theorem jump_cooldown_counterexample:
  "run oneQuestionGame [Click 9010 1000, Frame 9025 0, Click 9030 1050, Click 9035 1100]
      flyingExample
     = run oneQuestionGame [Click 9010 1000, Frame 9025 0] flyingExample
   \<and> map_sum id (\<lambda>e. velocity (bird (gameState e)))
       (run oneQuestionGame [Click 9010 1000, Frame 9025 0, Click 9030 1100] flyingExample)
     = Inr (- (33 / 4))
   \<and> map_sum id (\<lambda>e. velocity (bird (gameState e)))
       (run oneQuestionGame [Click 9010 1000, Frame 9025 0, Click 9030 1100, Click 9035 1200]
          flyingExample)
     = Inr (- 9)"
  by (simp add: eval_simps)


section \<open>Physics\<close>

lemma answerSelection_bird:
  "answerSelection cq s p = Inr (p', s') \<Longrightarrow> bird s' = bird s"
  by (auto simp: answerSelection_def Let_def split: if_splits option.splits)

lemma playingBody_bird:
  "playingBody cc cq t dt s p = Inr (brk, p', s') \<Longrightarrow> bird s' = bird s"
  by (auto simp: playingBody_def Let_def split: if_splits option.splits PipeType.splits
      dest!: answerSelection_bird)

lemma playingLoop_bird:
  "playingLoop cc cq t dt s ps = Inr (ps', s') \<Longrightarrow> bird s' = bird s"
proof (induction ps arbitrary: s ps' s')
  case Nil
  then show ?case by simp
next
  case (Cons p ps)
  then show ?case
    by (auto split: sum.splits if_splits prod.splits dest!: playingBody_bird)
qed

lemma previewBody_bird:
  "previewBody t dt s p = (brk, p', s') \<Longrightarrow> bird s' = bird s"
  by (auto simp: previewBody_def Let_def split: if_splits)

lemma previewLoop_bird:
  "previewLoop t dt s ps = (ps', s') \<Longrightarrow> bird s' = bird s"
proof (induction ps arbitrary: s ps' s')
  case Nil
  then show ?case by simp
next
  case (Cons p ps)
  then show ?case
    by (auto split: if_splits prod.splits dest!: previewBody_bird)
qed

lemma animate_bird [simp]:
  "bird_y (bird (animate n s)) = bird_y (bird s)"
  "velocity (bird (animate n s)) = velocity (bird s)"
  by (simp_all add: animate_def Let_def)

lemma physics_simps [simp]:
  "velocity (physics dt b) = velocity b + GRAVITY * dt"
  "bird_y (physics dt b) = bird_y b + (velocity b + GRAVITY * dt) * dt"
  by (simp_all add: physics_def Let_def)

lemma tickPlaying_bird:
  assumes "tickPlaying cc cq t el dt rnd s = Inr s'"
  shows "velocity (bird s') = velocity (bird s) + GRAVITY * dt
       \<and> bird_y (bird s') = bird_y (bird s) + (velocity (bird s) + GRAVITY * dt) * dt"
  using assms
  by (auto simp: tickPlaying_def Let_def split: if_splits sum.splits bool.splits prod.splits
      dest!: playingLoop_bird)

lemma tickQuestionPreview_bird:
  "velocity (bird (tickQuestionPreview t el dt s)) = velocity (bird s) + GRAVITY * dt
   \<and> bird_y (bird (tickQuestionPreview t el dt s)) = bird_y (bird s) + (velocity (bird s) + GRAVITY * dt) * dt"
  by (auto simp: tickQuestionPreview_def Let_def split: if_splits prod.splits
      dest!: previewLoop_bird)

lemma flight_frame_physics:
  assumes "flightPhase (phase (gameState e))"
      and "gameLoop chapters currentTime rnd e = Inr e'"
  shows "velocity (bird (gameState e')) = velocity (bird (gameState e)) + GRAVITY * deltaTimeOf (lastFrameTime e) currentTime"
    and "bird_y (bird (gameState e')) = bird_y (bird (gameState e))
           + velocity (bird (gameState e')) * deltaTimeOf (lastFrameTime e) currentTime"
    and "lastFrameTime e' = currentTime"
  using assms tickQuestionPreview_bird
  by (auto simp: gameLoop_def Let_def flightPhase_def split: sum.splits dest!: tickPlaying_bird)

lemma deltaTimeOf_le: "deltaTimeOf l t \<le> MAX_DELTA_TIME"
  by (simp add: deltaTimeOf_def Let_def)

lemma eulerSum_Cons:
  "eulerSum y0 v0 (d # ds) = eulerSum (y0 + (v0 + GRAVITY * d) * d) (v0 + GRAVITY * d) ds"
proof -
  have inner: "\<And>i. (\<Sum>j\<le>Suc i. (d # ds) ! j) = d + (\<Sum>j\<le>i. ds ! j)"
    by (simp add: sum.atMost_Suc_shift del: sum.atMost_Suc)
  show ?thesis
    unfolding eulerSum_def
    by (simp add: sum.lessThan_Suc_shift inner algebra_simps del: sum.lessThan_Suc sum.atMost_Suc)
qed

lemma eulerSum_uniform:
  "eulerSum y0 v0 (replicate n d) = y0 + real n * v0 * d + GRAVITY * d\<^sup>2 * (real n * (real n + 1) / 2)"
proof (induction n arbitrary: y0 v0)
  case 0
  then show ?case by (simp add: eulerSum_def)
next
  case (Suc n)
  show ?case
    by (simp add: eulerSum_Cons Suc.IH algebra_simps power2_eq_square)
qed



text \<open>
  C9 (as amended). Every frame started in a flight phase (\<open>playing\<close> or
  \<open>question_preview\<close>) adds \<open>GRAVITY * dt\<close> to the velocity and then
  \<open>velocity * dt\<close> to the position, with \<open>dt\<close> clamped to \<open>MAX_DELTA_TIME\<close>. Hence
  after any number of such frames without input the position is the sum of these steps,
  \<open>y0 + (\<Sum>i. dt i * (v0 + GRAVITY * (\<Sum>j\<le>i. dt j)))\<close>, in exact arithmetic. For
  equal steps \<open>d\<close> from rest this is \<open>y0 + GRAVITY * d\<^sup>2 * n * (n + 1) / 2\<close>
  (lemma \<open>eulerSum_uniform\<close>), not the continuous \<open>y0 + GRAVITY * (n * d)\<^sup>2 / 2\<close>.
\<close>

theorem physics_integration:
  assumes "flightFrames chapters fs e = Some e'"
  shows "bird_y (bird (gameState e'))
           = eulerSum (bird_y (bird (gameState e))) (velocity (bird (gameState e)))
               (deltas (lastFrameTime e) (map fst fs))
       \<and> velocity (bird (gameState e'))
           = velocity (bird (gameState e)) + GRAVITY * sum_list (deltas (lastFrameTime e) (map fst fs))
       \<and> (\<forall>d \<in> set (deltas (lastFrameTime e) (map fst fs)). d \<le> MAX_DELTA_TIME)"
  using assms
proof (induction fs arbitrary: e)
  case Nil
  then show ?case by (simp add: eulerSum_def)
next
  case (Cons f fs)
  obtain t rnd where f: "f = (t, rnd)" by (cases f)
  from Cons.prems f obtain e1 where
    fl: "flightPhase (phase (gameState e))" and
    g: "gameLoop chapters t rnd e = Inr e1" and
    rest: "flightFrames chapters fs e1 = Some e'"
    by (auto split: if_splits sum.splits)
  note ph = flight_frame_physics[OF fl g]
  from Cons.IH[OF rest] show ?case
    by (simp add: f ph eulerSum_Cons deltaTimeOf_le algebra_simps)
qed

theorem physics_integration_witness:
  "\<exists>e'. flightFrames oneQuestionGame [(9000 + 50 / 3, 0), (9050, 0)] flyingExample = Some e'
     \<and> bird_y (bird (gameState e')) = eulerSum 211 0 [1, 3 / 2]
     \<and> bird_y (bird (gameState e')) = 1707 / 8
     \<and> velocity (bird (gameState e')) = 5 / 4"
proof -
  define e' where "e' = the (flightFrames oneQuestionGame [(9000 + 50 / 3, 0), (9050, 0)] flyingExample)"
  have h: "flightFrames oneQuestionGame [(9000 + 50 / 3, 0), (9050, 0)] flyingExample = Some e'"
    by (simp add: e'_def eval_simps)
  have d: "deltas (lastFrameTime flyingExample) (map fst [(9000 + 50 / 3, 0), (9050, 0::real)]) = [1, 3 / 2]"
    by (simp add: eval_simps)
  have b: "bird_y (bird (gameState flyingExample)) = 211" "velocity (bird (gameState flyingExample)) = 0"
    by (simp_all add: eval_simps)
  have ev: "eulerSum 211 0 [1, 3 / 2] = 1707 / 8"
    by (simp add: eulerSum_def GRAVITY_def lessThan_Suc atMost_Suc)
  note pi = physics_integration[OF h, unfolded d b]
  show ?thesis
    using pi h ev by (simp add: GRAVITY_def)
qed


text \<open>
  C9 as stated fails: from rest at the centre, one frame with time step 1 puts the bird at
  423/2, while the closed-form integration of constant gravity over the elapsed time 1
  gives 845/4.
\<close>

theorem physics_not_continuous_closed_form:
  "map_option (\<lambda>e. bird_y (bird (gameState e)))
     (flightFrames oneQuestionGame [(9000 + 50 / 3, 0)] flyingExample) = Some (423 / 2)
   \<and> deltas (lastFrameTime flyingExample) [9000 + 50 / 3] = [1]
   \<and> velocity (bird (gameState flyingExample)) = 0
   \<and> continuousClosedForm (bird_y (bird (gameState flyingExample))) 1 = 845 / 4
   \<and> map_option (\<lambda>e. bird_y (bird (gameState e)))
        (flightFrames oneQuestionGame [(9000 + 50 / 3, 0)] flyingExample)
       \<noteq> Some (continuousClosedForm (bird_y (bird (gameState flyingExample)))
                  (sum_list (deltas (lastFrameTime flyingExample) [9000 + 50 / 3])))"
  by (simp add: eval_simps continuousClosedForm_def)



end
